theory Spec2Isabelle
  imports Main "HOL-Library.AList"
begin

section \<open>The schedule-log parser of \<^verbatim>\<open>gantt_diagram/visualize_schedule.py\<close>\<close>

text \<open>
  The development embeds \<^verbatim>\<open>parse_output\<close> and \<^verbatim>\<open>draw_gantt\<close>. The
  input of the parser is the text of the log file (the characters that \<^verbatim>\<open>open(filename, 'r')\<close>
  delivers); opening and decoding the file are outside the model. A text is a \<open>string\<close>,
  so its characters are the code points 0 to 255. Python integers are \<open>int\<close>, Python
  dictionaries are association lists in insertion order (a dictionary keeps the position of
  a key that is assigned again, as \<open>AList.update\<close> does), the set of PIDs is a HOL set,
  and every place of the source that can raise is a branch returning an error.
\<close>

subsection \<open>Regular expressions\<close>

text \<open>
  The four patterns of the source only use literal characters, the classes \<^verbatim>\<open>\d\<close> and
  \<^verbatim>\<open>\s\<close>, the greedy repetitions \<^verbatim>\<open>*\<close> and \<^verbatim>\<open>+\<close> of a single character or
  class, and one capturing group. On the code points below 256, \<^verbatim>\<open>\d\<close> of a Python
  \<^verbatim>\<open>str\<close> pattern is the ten ASCII digits and \<^verbatim>\<open>\s\<close> is the twelve characters
  listed in \<open>is_space\<close>.
\<close>

datatype atom = Chr char | Dig | Spc

datatype piece = One atom | Star atom | Plus atom | GOpen | GClose

definition is_digit :: "char \<Rightarrow> bool" where
  "is_digit c = (c \<in> set ''0123456789'')"

definition is_space :: "char \<Rightarrow> bool" where
  "is_space c = (c \<in> set [CHR 0x09, CHR 0x0A, CHR 0x0B, CHR 0x0C, CHR 0x0D,
                            CHR 0x1C, CHR 0x1D, CHR 0x1E, CHR 0x1F, CHR '' '',
                            CHR 0x85, CHR 0xA0])"

fun amatch :: "atom \<Rightarrow> char \<Rightarrow> bool" where
  "amatch (Chr c) x = (x = c)"
| "amatch Dig x = is_digit x"
| "amatch Spc x = is_space x"

text \<open>The text of group 1 grows by every character consumed while the group is open.\<close>

definition grow :: "bool \<Rightarrow> string \<Rightarrow> char \<Rightarrow> string" where
  "grow cap g x = (if cap then g @ [x] else g)"

text \<open>
  \<open>rmatch ps s cap g\<close> matches the pattern \<open>ps\<close> at the start of \<open>s\<close> the way the
  backtracking engine does: a repetition first takes one more character and gives it
  back only when the rest of the pattern fails. The result is the text of group 1 of
  the first match found.
\<close>

fun rmatch :: "piece list \<Rightarrow> string \<Rightarrow> bool \<Rightarrow> string \<Rightarrow> string option" where
  "rmatch [] s cap g = Some g"
| "rmatch (GOpen # ps) s cap g = rmatch ps s True []"
| "rmatch (GClose # ps) s cap g = rmatch ps s False g"
| "rmatch (One a # ps) [] cap g = None"
| "rmatch (One a # ps) (x # xs) cap g =
     (if amatch a x then rmatch ps xs cap (grow cap g x) else None)"
| "rmatch (Plus a # ps) [] cap g = None"
| "rmatch (Plus a # ps) (x # xs) cap g =
     (if amatch a x then rmatch (Star a # ps) xs cap (grow cap g x) else None)"
| "rmatch (Star a # ps) [] cap g = rmatch ps [] cap g"
| "rmatch (Star a # ps) (x # xs) cap g =
     (if amatch a x
      then (case rmatch (Star a # ps) xs cap (grow cap g x) of
              Some r \<Rightarrow> Some r
            | None \<Rightarrow> rmatch ps (x # xs) cap g)
      else rmatch ps (x # xs) cap g)"

text \<open>
  \<^verbatim>\<open>pattern.search(line)\<close>: the match at the leftmost position of the line where
  the pattern matches, \<open>None\<close> when there is none. A match object is given by the text
  of its group 1, which is all the source reads of it.
\<close>

fun re_search :: "piece list \<Rightarrow> string \<Rightarrow> string option" where
  "re_search ps [] = rmatch ps [] False []"
| "re_search ps (x # xs) =
     (case rmatch ps (x # xs) False [] of
        Some g \<Rightarrow> Some g
      | None \<Rightarrow> re_search ps xs)"

definition lits :: "string \<Rightarrow> piece list" where
  "lits s = map (\<lambda>c. One (Chr c)) s"

text \<open>\<^verbatim>\<open>r'\*+ TIME: (\d+) \*+'\<close>\<close>

definition time_pattern :: "piece list" where
  "time_pattern =
     [Plus (Chr CHR ''*'')] @ lits '' TIME: '' @ [GOpen, Plus Dig, GClose]
     @ lits '' '' @ [Plus (Chr CHR ''*'')]"

text \<open>\<^verbatim>\<open>r'\s*running pid:\s*(\d+)'\<close>\<close>

definition running_pattern :: "piece list" where
  "running_pattern =
     [Star Spc] @ lits ''running pid:'' @ [Star Spc, GOpen, Plus Dig, GClose]"

text \<open>\<^verbatim>\<open>r'\s*waiting pid:\s*(\d+)'\<close>\<close>

definition waiting_pattern :: "piece list" where
  "waiting_pattern =
     [Star Spc] @ lits ''waiting pid:'' @ [Star Spc, GOpen, Plus Dig, GClose]"

text \<open>\<^verbatim>\<open>r'\s*ready pid:\s*(\d+)'\<close>\<close>

definition ready_pattern :: "piece list" where
  "ready_pattern =
     [Star Spc] @ lits ''ready pid:'' @ [Star Spc, GOpen, Plus Dig, GClose]"

subsection \<open>Exceptions, \<^verbatim>\<open>int()\<close> and dictionaries\<close>

datatype error = ValueError | KeyError | UnboundLocalError | OverflowError | LibraryError

definition digit_val :: "char \<Rightarrow> int" where
  "digit_val c = int (of_char c) - 48"

text \<open>
  The interpreter refuses to convert a numeral of more than 4300 digits, the default of
  \<^verbatim>\<open>sys.int_info.default_max_str_digits\<close>; leading zeros count.
\<close>

definition max_str_digits :: nat where
  "max_str_digits = 4300"

text \<open>
  \<^verbatim>\<open>int(s)\<close> on a string of decimal digits, with Python's unbounded integers: a
  \<open>ValueError\<close> when the string is longer than \<open>max_str_digits\<close>. Any argument that is
  not a string of digits is a \<open>ValueError\<close> here as well: there the model raises on more
  strings than Python does (which also accepts a sign, blanks and underscores), never on
  fewer.
\<close>

definition py_int :: "string \<Rightarrow> error + int" where
  "py_int s =
     (if s \<noteq> [] \<and> list_all is_digit s \<and> length s \<le> max_str_digits
      then Inr (foldl (\<lambda>n c. 10 * n + digit_val c) 0 s)
      else Inl ValueError)"

type_synonym ('k, 'v) dict = "('k \<times> 'v) list"

text \<open>\<^verbatim>\<open>k in d\<close>\<close>

definition dict_in :: "'k \<Rightarrow> ('k, 'v) dict \<Rightarrow> bool" where
  "dict_in k d = (map_of d k \<noteq> None)"

text \<open>\<^verbatim>\<open>if k not in d: d[k] = []\<close>\<close>

definition dict_ensure :: "'k \<Rightarrow> ('k, 'v list) dict \<Rightarrow> ('k, 'v list) dict" where
  "dict_ensure k d = (if \<not> dict_in k d then AList.update k [] d else d)"

text \<open>\<^verbatim>\<open>d[k].append(v)\<close>: the lookup raises \<open>KeyError\<close> on a missing key.\<close>

definition dict_append :: "'k \<Rightarrow> 'v \<Rightarrow> ('k, 'v list) dict \<Rightarrow> error + ('k, 'v list) dict" where
  "dict_append k v d =
     (case map_of d k of
        None \<Rightarrow> Inl KeyError
      | Some l \<Rightarrow> Inr (AList.update k (l @ [v]) d))"

subsection \<open>The trace and the parser state\<close>

text \<open>The dictionary \<^verbatim>\<open>data\<close> built by \<^verbatim>\<open>parse_output\<close>.\<close>

record trace =
  cpu :: "(int, int list) dict"
  io :: "(int, int list) dict"
  ready :: "(int, int list) dict"
  events :: "(int, string list) dict"
  max_time :: int
  pids :: "int set"

text \<open>
  The local variables of the loop. \<open>pid\<close> is unbound (\<open>None\<close>) until the first
  announcement is read.
\<close>

record pstate =
  data :: trace
  current_time :: int
  current_running :: int
  current_waiting :: "int list"
  current_ready :: "int list"
  pid :: "int option"

definition init_data :: trace where
  "init_data = \<lparr>cpu = [], io = [], ready = [], events = [], max_time = 0, pids = {}\<rparr>"

definition init_state :: pstate where
  "init_state = \<lparr>data = init_data, current_time = 0, current_running = - 1,
                 current_waiting = [], current_ready = [], pid = None\<rparr>"

subsection \<open>One iteration of the loop over the lines\<close>

text \<open>Lines 34 to 47: the line is a tick marker.\<close>

definition on_time :: "string \<Rightarrow> pstate \<Rightarrow> error + pstate" where
  "on_time g st =
     (case py_int g of
        Inl e \<Rightarrow> Inl e
      | Inr t \<Rightarrow>
          Inr (st\<lparr>current_time := t,
                  data := (data st)\<lparr>max_time := max (max_time (data st)) t\<rparr>,
                  current_waiting := [],
                  current_ready := [],
                  current_running := - 1\<rparr>))"

text \<open>Lines 50 to 59: the line announces the running process.\<close>

definition on_running :: "string \<Rightarrow> pstate \<Rightarrow> error + pstate" where
  "on_running g st =
     (case py_int g of
        Inl e \<Rightarrow> Inl e
      | Inr p \<Rightarrow>
          if p \<noteq> - 1 then
            (let d = data st;
                 c = dict_ensure p (cpu d)
             in case dict_append p (current_time st) c of
                  Inl e \<Rightarrow> Inl e
                | Inr c' \<Rightarrow>
                    Inr (st\<lparr>pid := Some p, current_running := p,
                            data := d\<lparr>pids := insert p (pids d), cpu := c'\<rparr>\<rparr>))
          else Inr (st\<lparr>pid := Some p\<rparr>))"

text \<open>Lines 62 to 68: the line announces a process waiting for I/O.\<close>

definition on_waiting :: "string \<Rightarrow> pstate \<Rightarrow> error + pstate" where
  "on_waiting g st =
     (case py_int g of
        Inl e \<Rightarrow> Inl e
      | Inr p \<Rightarrow>
          (let d = data st;
               c = dict_ensure p (io d)
           in case dict_append p (current_time st) c of
                Inl e \<Rightarrow> Inl e
              | Inr c' \<Rightarrow>
                  Inr (st\<lparr>pid := Some p,
                          current_waiting := current_waiting st @ [p],
                          data := d\<lparr>pids := insert p (pids d), io := c'\<rparr>\<rparr>)))"

text \<open>Lines 71 to 75: the line announces a process of the ready queue.\<close>

definition on_ready :: "string \<Rightarrow> pstate \<Rightarrow> error + pstate" where
  "on_ready g st =
     (case py_int g of
        Inl e \<Rightarrow> Inl e
      | Inr p \<Rightarrow>
          Inr (st\<lparr>pid := Some p,
                  current_ready := current_ready st @ [p],
                  data := (data st)\<lparr>pids := insert p (pids (data st))\<rparr>\<rparr>))"

text \<open>
  Lines 85 to 88, the end of the loop body: under \<^verbatim>\<open>if ready_match:\<close> the PID
  held by the variable \<^verbatim>\<open>pid\<close> is appended to the ready queue of the current tick
  unless it is there already. Reading \<^verbatim>\<open>pid\<close> while it is unbound raises.
\<close>

definition store_ready :: "string option \<Rightarrow> pstate \<Rightarrow> error + pstate" where
  "store_ready ready_match st =
     (case ready_match of
        None \<Rightarrow> Inr st
      | Some _ \<Rightarrow>
          (let t = current_time st;
               r = dict_ensure t (ready (data st))
           in case pid st of
                None \<Rightarrow> Inl UnboundLocalError
              | Some p \<Rightarrow>
                  (case map_of r t of
                     None \<Rightarrow> Inl KeyError
                   | Some q \<Rightarrow>
                       if p \<notin> set q
                       then (case dict_append t p r of
                               Inl e \<Rightarrow> Inl e
                             | Inr r' \<Rightarrow> Inr (st\<lparr>data := (data st)\<lparr>ready := r'\<rparr>\<rparr>))
                       else Inr (st\<lparr>data := (data st)\<lparr>ready := r\<rparr>\<rparr>))))"

text \<open>
  The loop body, lines 33 to 88. Each of the first four branches ends in
  \<^verbatim>\<open>continue\<close>; the last block is reached with the \<^verbatim>\<open>ready_match\<close> of the
  line when none of them was taken.
\<close>

definition step :: "pstate \<Rightarrow> string \<Rightarrow> error + pstate" where
  "step st line =
     (case re_search time_pattern line of
        Some g \<Rightarrow> on_time g st
      | None \<Rightarrow>
     (case re_search running_pattern line of
        Some g \<Rightarrow> on_running g st
      | None \<Rightarrow>
     (case re_search waiting_pattern line of
        Some g \<Rightarrow> on_waiting g st
      | None \<Rightarrow>
     (let ready_match = re_search ready_pattern line
      in case ready_match of
           Some g \<Rightarrow> on_ready g st
         | None \<Rightarrow> store_ready ready_match st))))"

text \<open>The \<^verbatim>\<open>for\<close> loop: an exception in one iteration ends the parse.\<close>

fun loop :: "pstate \<Rightarrow> string list \<Rightarrow> error + pstate" where
  "loop st [] = Inr st"
| "loop st (l # ls) =
     (case step st l of
        Inl e \<Rightarrow> Inl e
      | Inr st' \<Rightarrow> loop st' ls)"

subsection \<open>Reading the lines\<close>

text \<open>
  A file opened in text mode translates the line ends \<^verbatim>\<open>\r\n\<close> and \<^verbatim>\<open>\r\<close> into
  \<^verbatim>\<open>\n\<close>, and \<^verbatim>\<open>readlines\<close> cuts the text after every \<^verbatim>\<open>\n\<close>, which stays
  at the end of its line.
\<close>

fun translate_newlines :: "string \<Rightarrow> string" where
  "translate_newlines [] = []"
| "translate_newlines (c # cs) =
     (if c = CHR 0x0D
      then (case cs of
              [] \<Rightarrow> [CHR 0x0A]
            | c' # cs' \<Rightarrow>
                if c' = CHR 0x0A then CHR 0x0A # translate_newlines cs'
                else CHR 0x0A # translate_newlines cs)
      else c # translate_newlines cs)"

fun split_lines :: "string \<Rightarrow> string \<Rightarrow> string list" where
  "split_lines cur [] = (if cur = [] then [] else [cur])"
| "split_lines cur (c # cs) =
     (if c = CHR 0x0A then (cur @ [c]) # split_lines [] cs
      else split_lines (cur @ [c]) cs)"

definition readlines :: "string \<Rightarrow> string list" where
  "readlines text = split_lines [] (translate_newlines text)"

text \<open>\<^verbatim>\<open>parse_output\<close>, as a function of the text of the file.\<close>

definition parse_output :: "string \<Rightarrow> error + trace" where
  "parse_output text =
     (case loop init_state (readlines text) of
        Inl e \<Rightarrow> Inl e
      | Inr st \<Rightarrow> Inr (data st))"

subsection \<open>The renderer\<close>

text \<open>
  \<^verbatim>\<open>draw_gantt\<close> talks to the plotting library and to the standard output. An
  \<open>effect\<close> is one call. The float arguments of a call are written as the integers they
  are computed from: \<open>SetYlim ax lo hi\<close> stands for \<^verbatim>\<open>ax.set_ylim(lo - 0.5, hi + 0.5)\<close>,
  \<open>AddPatch ax t row\<close> for the \<^verbatim>\<open>Rectangle((t, row - 0.4), 1, 0.8, ...)\<close> added to
  \<open>ax\<close>, \<open>AddText t i p\<close> for \<^verbatim>\<open>ax3.text(t + 0.5, i, f"P{p}", ...)\<close> and
  \<open>SetYticklabels ax ns\<close> for the labels \<^verbatim>\<open>str(n)\<close> of the numbers \<open>ns\<close>.
\<close>

datatype axes = Ax1 | Ax2 | Ax3

datatype effect =
    Print string
  | Subplots "nat list"
  | SetXticks axes "int list"
  | Grid axes string
  | SetXlim axes int int
  | TickParams axes
  | SetTitle axes string
  | SetYlabel axes string
  | SetYticks axes "int list"
  | SetYticklabels axes "int list"
  | SetYlim axes int int
  | InvertYaxis axes
  | AddPatch axes int int
  | AddText int nat int
  | Xlabel string
  | TightLayout
  | Savefig string

text \<open>
  What \<^verbatim>\<open>draw_gantt\<close> does, step by step: a call, the conversion of an integer
  operand of a float subtraction or addition, or the formatting of an integer in an
  f-string. The last two are where the function itself can raise.
\<close>

datatype action = Call effect | ToFloat int | ToStr int

text \<open>
  Converting an integer to a float raises \<open>OverflowError\<close> when the integer rounds to a
  magnitude beyond the largest double.
\<close>

definition float_ok :: "int \<Rightarrow> bool" where
  "float_ok n = (\<bar>n\<bar> < 2 ^ 1024 - 2 ^ 970)"

text \<open>Formatting an integer raises \<open>ValueError\<close> when it has more than 4300 digits.\<close>

definition str_ok :: "int \<Rightarrow> bool" where
  "str_ok n = (\<bar>n\<bar> < 10 ^ max_str_digits)"

text \<open>
  The plotting library is a parameter: \<open>lib done c\<close> tells whether the call \<open>c\<close>
  returns after the calls \<open>done\<close>; otherwise it raises. \<^verbatim>\<open>print\<close> is not a call
  of the library and returns.
\<close>

type_synonym library = "effect list \<Rightarrow> effect \<Rightarrow> bool"

definition returns :: "library \<Rightarrow> effect list \<Rightarrow> effect \<Rightarrow> bool" where
  "returns lib done c = (case c of Print s \<Rightarrow> True | _ \<Rightarrow> lib done c)"

text \<open>
  Running the actions in order, up to the first that raises. The result is the list of
  the calls made, the raising one included, and the exception that ended the run, if any.
\<close>

fun perform :: "library \<Rightarrow> effect list \<Rightarrow> action list \<Rightarrow> effect list \<times> error option" where
  "perform lib done [] = (done, None)"
| "perform lib done (ToFloat n # acts) =
     (if float_ok n then perform lib done acts else (done, Some OverflowError))"
| "perform lib done (ToStr n # acts) =
     (if str_ok n then perform lib done acts else (done, Some ValueError))"
| "perform lib done (Call c # acts) =
     (if returns lib done c then perform lib (done @ [c]) acts
      else (done @ [c], Some LibraryError))"

text \<open>Lines 111 to 116, for one of the three axes.\<close>

definition common_styling :: "int \<Rightarrow> axes \<Rightarrow> action list" where
  "common_styling max_t ax =
     map Call [SetXticks ax [0..max_t], Grid ax ''x'', Grid ax ''y'', SetXlim ax 0 max_t,
               TickParams ax]"

text \<open>Lines 119 to 129 and 132 to 142: the lane of the CPU and the lane of the I/O.\<close>

definition pid_lane :: "axes \<Rightarrow> string \<Rightarrow> int list \<Rightarrow> (int, int list) dict \<Rightarrow> action list" where
  "pid_lane ax title ps d =
     [Call (SetTitle ax title), Call (SetYlabel ax ''PID''), Call (SetYticks ax ps),
      ToFloat (Min (set ps)), ToFloat (Max (set ps)),
      Call (SetYlim ax (Min (set ps)) (Max (set ps))), Call (InvertYaxis ax)]
     @ concat (map (\<lambda>p. case map_of d p of
                           None \<Rightarrow> []
                         | Some ts \<Rightarrow> concat (map (\<lambda>t. [ToFloat p, Call (AddPatch ax t p)]) ts))
                   ps)"

text \<open>Lines 145 to 160: the lane of the ready queue.\<close>

definition ready_lane :: "int \<Rightarrow> int \<Rightarrow> (int, int list) dict \<Rightarrow> action list" where
  "ready_lane max_queue_depth max_t r =
     [Call (SetTitle Ax3 ''Ready Queue''), Call (SetYlabel Ax3 ''Queue Position''),
      Call (SetYticks Ax3 [0..max_queue_depth - 1])]
     @ map (\<lambda>i. ToStr (i + 1)) [0..max_queue_depth - 1]
     @ [Call (SetYticklabels Ax3 (map (\<lambda>i. i + 1) [0..max_queue_depth - 1])),
        ToFloat max_queue_depth,
        Call (SetYlim Ax3 0 (max_queue_depth - 1)), Call (InvertYaxis Ax3)]
     @ concat (map (\<lambda>t. case map_of r t of
                           None \<Rightarrow> []
                         | Some q_list \<Rightarrow>
                             concat (map (\<lambda>(i, p). [ToFloat (int i),
                                                    Call (AddPatch Ax3 t (int i)),
                                                    ToFloat t, ToStr p,
                                                    Call (AddText t i p)])
                                         (enumerate 0 q_list)))
                   [0..max_t - 1])"

text \<open>Lines 98 to 165: what the function does when there is at least one PID.\<close>

definition plot_actions :: "trace \<Rightarrow> int list \<Rightarrow> string \<Rightarrow> action list" where
  "plot_actions d ps output_file =
     (let max_queue_depth =
            max (fold (\<lambda>(t, q) m. max m (int (length q))) (ready d) 0) 1;
          max_t = max_time d + 2
      in [Call (Subplots [length ps, length ps, nat max_queue_depth])]
         @ concat (map (common_styling max_t) [Ax1, Ax2, Ax3])
         @ pid_lane Ax1 ''CPU Usage'' ps (cpu d)
         @ pid_lane Ax2 ''I/O Usage'' ps (io d)
         @ ready_lane max_queue_depth max_t (ready d)
         @ [Call (Xlabel ''Time (Ticks)''), Call TightLayout, Call (Savefig output_file),
            Call (Print (''Gantt chart saved to '' @ output_file))])"

text \<open>Lines 92 to 165. With no PID the function prints and returns at line 96.\<close>

definition draw_gantt :: "library \<Rightarrow> trace \<Rightarrow> string \<Rightarrow> effect list \<times> error option" where
  "draw_gantt lib d output_file =
     (let ps = sorted_list_of_set (pids d)
      in if ps = [] then perform lib [] [Call (Print ''No processes found.'')]
         else perform lib [] (plot_actions d ps output_file))"

subsection \<open>Auxiliary notions for the proofs\<close>

text \<open>A pattern without group markers.\<close>

fun no_group :: "piece list \<Rightarrow> bool" where
  "no_group [] = True"
| "no_group (GOpen # ps) = False"
| "no_group (GClose # ps) = False"
| "no_group (_ # ps) = no_group ps"

text \<open>A pattern whose only group is \<^verbatim>\<open>(\d+)\<close>.\<close>

fun digit_group :: "piece list \<Rightarrow> bool" where
  "digit_group [] = False"
| "digit_group (GOpen # ps) =
     (case ps of Plus Dig # GClose # post \<Rightarrow> no_group post | _ \<Rightarrow> False)"
| "digit_group (GClose # ps) = False"
| "digit_group (_ # ps) = digit_group ps"

text \<open>The tick that a line announces when it is a tick marker.\<close>

definition marker_tick :: "string \<Rightarrow> int option" where
  "marker_tick line =
     (case re_search time_pattern line of
        None \<Rightarrow> None
      | Some g \<Rightarrow> (case py_int g of Inl e \<Rightarrow> None | Inr t \<Rightarrow> Some t))"

text \<open>A line that none of the four patterns matches.\<close>

definition unrecognized :: "string \<Rightarrow> bool" where
  "unrecognized line =
     (re_search time_pattern line = None \<and> re_search running_pattern line = None \<and>
      re_search waiting_pattern line = None \<and> re_search ready_pattern line = None)"

text \<open>
  The numeral that the loop body passes to \<^verbatim>\<open>int()\<close> for a line: group 1 of the
  first of the four patterns, in the order of the source, that matches the line.
\<close>

definition int_arg :: "string \<Rightarrow> string option" where
  "int_arg line =
     (case re_search time_pattern line of
        Some g \<Rightarrow> Some g
      | None \<Rightarrow>
     (case re_search running_pattern line of
        Some g \<Rightarrow> Some g
      | None \<Rightarrow>
     (case re_search waiting_pattern line of
        Some g \<Rightarrow> Some g
      | None \<Rightarrow> re_search ready_pattern line)))"

text \<open>A line whose numeral, if it has one, is short enough for \<^verbatim>\<open>int()\<close>.\<close>

definition converts :: "string \<Rightarrow> bool" where
  "converts line =
     (case int_arg line of None \<Rightarrow> True | Some g \<Rightarrow> length g \<le> max_str_digits)"

text \<open>The list that a key holds, empty when the key is missing.\<close>

definition old_entry :: "'k \<Rightarrow> ('k, 'v list) dict \<Rightarrow> 'v list" where
  "old_entry k d = (case map_of d k of None \<Rightarrow> [] | Some l \<Rightarrow> l)"

text \<open>Every tick recorded in a dictionary from PIDs to ticks is at most \<open>m\<close>.\<close>

definition ticks_ok :: "int \<Rightarrow> (int, int list) dict \<Rightarrow> bool" where
  "ticks_ok m d = list_all (\<lambda>(p, ts). list_all (\<lambda>t. t \<le> m) ts) d"

text \<open>What holds of the variables of the loop before and after every iteration.\<close>

definition inv :: "pstate \<Rightarrow> bool" where
  "inv st =
     (ready (data st) = [] \<and> events (data st) = [] \<and>
      fst ` set (cpu (data st)) \<subseteq> pids (data st) \<and>
      fst ` set (io (data st)) \<subseteq> pids (data st) \<and>
      pids (data st) \<subseteq> {p. 0 \<le> p} \<and> finite (pids (data st)) \<and>
      current_time st \<le> max_time (data st) \<and>
      ticks_ok (max_time (data st)) (cpu (data st)) \<and>
      ticks_ok (max_time (data st)) (io (data st)))"

text \<open>A plotting library none of whose calls raises.\<close>

definition lib_ok :: library where
  "lib_ok done c = True"

subsection \<open>Input texts of the scenarios\<close>

definition unlines :: "string list \<Rightarrow> string" where
  "unlines ls = concat (map (\<lambda>l. l @ [CHR 0x0A]) ls)"

text \<open>Scenario A of the specification.\<close>

definition scenario_A :: string where
  "scenario_A = unlines
     [''***** TIME: 0 *****'', ''running pid: 1'', ''ready pid: 2'',
      ''***** TIME: 1 *****'', ''running pid: 2'', ''waiting pid: 1'', ''ready pid: 1'']"

text \<open>One tick-block that announces the same ready PID twice.\<close>

definition twice_ready :: string where
  "twice_ready = unlines [''***** TIME: 0 *****'', ''ready pid: 1'', ''ready pid: 1'']"

text \<open>Three announcements before any tick marker.\<close>

definition pre_marker :: string where
  "pre_marker = unlines [''running pid: 1'', ''waiting pid: 3'', ''ready pid: 2'']"

text \<open>Tick 3 announced by two markers, with a marker of tick 4 in between.\<close>

definition tick_twice :: string where
  "tick_twice = unlines
     [''***** TIME: 3 *****'', ''running pid: 1'', ''waiting pid: 2'',
      ''***** TIME: 4 *****'', ''running pid: 2'',
      ''***** TIME: 3 *****'', ''running pid: 1'', ''waiting pid: 5'']"

text \<open>Tick 3 announced by two markers, each block with a running and a ready line.\<close>

definition tick_twice_ready :: string where
  "tick_twice_ready = unlines
     [''***** TIME: 3 *****'', ''running pid: 1'', ''ready pid: 2'',
      ''***** TIME: 3 *****'', ''running pid: 1'', ''ready pid: 3'']"

text \<open>A log without any recognized line, with the three kinds of line end.\<close>

definition only_noise :: string where
  "only_noise = ''scheduler started'' @ [CHR 0x0D, CHR 0x0A] @ ''running pid: -1''
     @ [CHR 0x0D] @ ''TIME: 7'' @ [CHR 0x0A] @ ''pid 4 ready''"

text \<open>A running announcement whose PID has one digit more than \<^verbatim>\<open>int()\<close> accepts.\<close>

definition long_pid :: string where
  "long_pid = ''running pid: '' @ replicate (Suc max_str_digits) CHR ''1''"

section \<open>Properties\<close>

subsection \<open>The captured group is a decimal numeral\<close>

lemma is_digit_val: "is_digit c \<Longrightarrow> 0 \<le> digit_val c \<and> digit_val c \<le> 9"
  by (auto simp: is_digit_def digit_val_def)

lemma foldl_digits_nonneg:
  "list_all is_digit s \<Longrightarrow> 0 \<le> n \<Longrightarrow> 0 \<le> foldl (\<lambda>n c. 10 * n + digit_val c) n s"
proof (induction s arbitrary: n)
  case Nil
  then show ?case by simp
next
  case (Cons c s)
  from Cons.prems have "0 \<le> 10 * n + digit_val c"
    using is_digit_val [of c] by simp
  with Cons show ?case by simp
qed

lemma py_int_digits:
  assumes "g \<noteq> []" and "list_all is_digit g" and "length g \<le> max_str_digits"
  shows "\<exists>n. py_int g = Inr n \<and> 0 \<le> n"
  using assms foldl_digits_nonneg [of g 0] by (simp add: py_int_def)

lemma py_int_long: "\<not> length g \<le> max_str_digits \<Longrightarrow> py_int g = Inl ValueError"
  by (simp add: py_int_def)

lemma rmatch_no_group:
  "no_group ps \<Longrightarrow> rmatch ps s False g = Some r \<Longrightarrow> r = g"
proof (induction ps s "False" g rule: rmatch.induct)
  case (9 a ps x xs g)
  then show ?case
    by (auto simp: grow_def split: if_splits option.splits)
qed (auto simp: grow_def split: if_splits)

lemma rmatch_star_digits:
  "no_group post \<Longrightarrow> rmatch (Star Dig # GClose # post) s True g = Some r \<Longrightarrow>
   g \<noteq> [] \<Longrightarrow> list_all is_digit g \<Longrightarrow> r \<noteq> [] \<and> list_all is_digit r"
proof (induction s arbitrary: g)
  case Nil
  then show ?case by (auto dest: rmatch_no_group)
next
  case (Cons x xs)
  show ?case
  proof (cases "is_digit x")
    case False
    with Cons.prems show ?thesis by (auto dest: rmatch_no_group)
  next
    case True
    show ?thesis
    proof (cases "rmatch (Star Dig # GClose # post) xs True (g @ [x])")
      case None
      with True Cons.prems show ?thesis by (auto simp: grow_def dest: rmatch_no_group)
    next
      case (Some r')
      with True Cons.prems have "r' = r" by (simp add: grow_def)
      with Some Cons.IH [of "g @ [x]"] Cons.prems True show ?thesis by simp
    qed
  qed
qed

lemma rmatch_digit_group:
  "digit_group ps \<Longrightarrow> rmatch ps s cap g = Some r \<Longrightarrow> r \<noteq> [] \<and> list_all is_digit r"
proof (induction ps s cap g rule: rmatch.induct)
  case (2 ps s cap g)
  then obtain post where ps: "ps = Plus Dig # GClose # post" and ng: "no_group post"
    by (auto split: list.splits piece.splits atom.splits)
  from 2 ps obtain x xs where s: "s = x # xs" and d: "is_digit x"
    and m: "rmatch (Star Dig # GClose # post) xs True [x] = Some r"
    by (cases s) (auto simp: grow_def split: if_splits)
  from rmatch_star_digits [OF ng m] d show ?case by simp
next
  case (9 a ps x xs cap g)
  then show ?case by (auto split: if_splits option.splits)
qed (auto split: if_splits)

lemma re_search_digit_group:
  "digit_group ps \<Longrightarrow> re_search ps s = Some r \<Longrightarrow> r \<noteq> [] \<and> list_all is_digit r"
proof (induction s)
  case Nil
  then show ?case by (auto dest: rmatch_digit_group)
next
  case (Cons x xs)
  then show ?case by (auto split: option.splits dest: rmatch_digit_group)
qed

lemma digit_group_patterns:
  "digit_group time_pattern" "digit_group running_pattern"
  "digit_group waiting_pattern" "digit_group ready_pattern"
  by (simp_all add: time_pattern_def running_pattern_def waiting_pattern_def
        ready_pattern_def lits_def)

lemma search_int:
  assumes "re_search pat l = Some g"
    and "pat = time_pattern \<or> pat = running_pattern \<or> pat = waiting_pattern \<or> pat = ready_pattern"
    and "length g \<le> max_str_digits"
  shows "\<exists>n. py_int g = Inr n \<and> 0 \<le> n"
proof -
  from assms(2) have "digit_group pat" using digit_group_patterns by auto
  from re_search_digit_group [OF this assms(1)] assms(3) show ?thesis
    by (simp add: py_int_digits)
qed

subsection \<open>Dictionaries\<close>

lemma list_all_update:
  "list_all P d \<Longrightarrow> P (k, v) \<Longrightarrow> list_all P (AList.update k v d)"
  by (induction d) auto

lemma list_all_map_of:
  "list_all P d \<Longrightarrow> map_of d k = Some v \<Longrightarrow> P (k, v)"
  by (induction d) (auto split: if_splits)

lemma update_twice: "AList.update k v (AList.update k w d) = AList.update k v d"
  by (induction d) auto

lemma dict_append_ensure:
  "dict_append k v (dict_ensure k d) = Inr (AList.update k (old_entry k d @ [v]) d)"
  by (auto simp: dict_append_def dict_ensure_def dict_in_def old_entry_def update_conv'
        update_twice)

subsection \<open>One iteration, case by case\<close>

lemma step_raises:
  assumes "\<not> converts l"
  shows "step st l = Inl ValueError"
  using assms
  by (auto simp: converts_def int_arg_def step_def on_time_def on_running_def on_waiting_def
        on_ready_def py_int_long split: option.splits)

lemma step_time:
  assumes "re_search time_pattern l = Some g" and "length g \<le> max_str_digits"
  shows "\<exists>t. py_int g = Inr t \<and> 0 \<le> t \<and> marker_tick l = Some t \<and>
     step st l = Inr (st\<lparr>current_time := t,
                          data := (data st)\<lparr>max_time := max (max_time (data st)) t\<rparr>,
                          current_waiting := [], current_ready := [],
                          current_running := - 1\<rparr>)"
  using search_int [OF assms(1) _ assms(2)] assms
  by (auto simp: step_def on_time_def marker_tick_def)

lemma step_running:
  assumes "re_search time_pattern l = None" and "re_search running_pattern l = Some g"
    and "length g \<le> max_str_digits"
  shows "\<exists>p. py_int g = Inr p \<and> 0 \<le> p \<and>
     step st l = Inr (st\<lparr>pid := Some p, current_running := p,
        data := (data st)\<lparr>pids := insert p (pids (data st)),
          cpu := AList.update p (old_entry p (cpu (data st)) @ [current_time st])
                   (cpu (data st))\<rparr>\<rparr>)"
proof -
  from search_int [OF assms(2) _ assms(3)] obtain p where p: "py_int g = Inr p" "0 \<le> p"
    by auto
  then have "p \<noteq> - 1" by simp
  with p assms show ?thesis
    by (simp add: step_def on_running_def dict_append_ensure Let_def)
qed

lemma step_waiting:
  assumes "re_search time_pattern l = None" and "re_search running_pattern l = None"
    and "re_search waiting_pattern l = Some g" and "length g \<le> max_str_digits"
  shows "\<exists>p. py_int g = Inr p \<and> 0 \<le> p \<and>
     step st l = Inr (st\<lparr>pid := Some p, current_waiting := current_waiting st @ [p],
        data := (data st)\<lparr>pids := insert p (pids (data st)),
          io := AList.update p (old_entry p (io (data st)) @ [current_time st])
                   (io (data st))\<rparr>\<rparr>)"
proof -
  from search_int [OF assms(3) _ assms(4)] obtain p where p: "py_int g = Inr p" "0 \<le> p"
    by auto
  with assms show ?thesis
    by (simp add: step_def on_waiting_def dict_append_ensure Let_def)
qed

lemma step_ready:
  assumes "re_search time_pattern l = None" and "re_search running_pattern l = None"
    and "re_search waiting_pattern l = None" and "re_search ready_pattern l = Some g"
    and "length g \<le> max_str_digits"
  shows "\<exists>p. py_int g = Inr p \<and> 0 \<le> p \<and>
     step st l = Inr (st\<lparr>pid := Some p, current_ready := current_ready st @ [p],
        data := (data st)\<lparr>pids := insert p (pids (data st))\<rparr>\<rparr>)"
proof -
  from search_int [OF assms(4) _ assms(5)] obtain p where p: "py_int g = Inr p" "0 \<le> p"
    by auto
  with assms show ?thesis
    by (simp add: step_def on_ready_def Let_def)
qed

lemma step_other:
  assumes "unrecognized l"
  shows "step st l = Inr st"
  using assms by (simp add: unrecognized_def step_def store_ready_def)

lemma unrecognized_converts: "unrecognized l \<Longrightarrow> converts l"
  by (simp add: unrecognized_def converts_def int_arg_def)

lemma step_cases:
  obtains
    (raises) "\<not> converts l" "step st l = Inl ValueError"
  | (time) g t where "converts l" "re_search time_pattern l = Some g" "py_int g = Inr t"
      "0 \<le> t" "marker_tick l = Some t"
      "step st l = Inr (st\<lparr>current_time := t,
                          data := (data st)\<lparr>max_time := max (max_time (data st)) t\<rparr>,
                          current_waiting := [], current_ready := [],
                          current_running := - 1\<rparr>)"
  | (running) p where "converts l" "0 \<le> p" "marker_tick l = None"
      "step st l = Inr (st\<lparr>pid := Some p, current_running := p,
        data := (data st)\<lparr>pids := insert p (pids (data st)),
          cpu := AList.update p (old_entry p (cpu (data st)) @ [current_time st])
                   (cpu (data st))\<rparr>\<rparr>)"
  | (waiting) p where "converts l" "0 \<le> p" "marker_tick l = None"
      "step st l = Inr (st\<lparr>pid := Some p, current_waiting := current_waiting st @ [p],
        data := (data st)\<lparr>pids := insert p (pids (data st)),
          io := AList.update p (old_entry p (io (data st)) @ [current_time st])
                   (io (data st))\<rparr>\<rparr>)"
  | (ready) p where "converts l" "0 \<le> p" "marker_tick l = None"
      "step st l = Inr (st\<lparr>pid := Some p, current_ready := current_ready st @ [p],
        data := (data st)\<lparr>pids := insert p (pids (data st))\<rparr>\<rparr>)"
  | (other) "converts l" "unrecognized l" "marker_tick l = None" "step st l = Inr st"
proof (cases "converts l")
  case False
  from raises [OF False step_raises [OF False]] show ?thesis .
next
  case c: True
  show ?thesis
  proof (cases "re_search time_pattern l")
    case (Some g)
    with c have "length g \<le> max_str_digits" by (simp add: converts_def int_arg_def)
    from step_time [OF Some this, of st] time c Some show ?thesis by blast
  next
    case nt: None
    then have mt: "marker_tick l = None" by (simp add: marker_tick_def)
    show ?thesis
    proof (cases "re_search running_pattern l")
      case (Some g)
      with c nt have "length g \<le> max_str_digits" by (simp add: converts_def int_arg_def)
      from step_running [OF nt Some this, of st] running c mt show ?thesis by blast
    next
      case nr: None
      show ?thesis
      proof (cases "re_search waiting_pattern l")
        case (Some g)
        with c nt nr have "length g \<le> max_str_digits"
          by (simp add: converts_def int_arg_def)
        from step_waiting [OF nt nr Some this, of st] waiting c mt show ?thesis by blast
      next
        case nw: None
        show ?thesis
        proof (cases "re_search ready_pattern l")
          case (Some g)
          with c nt nr nw have "length g \<le> max_str_digits"
            by (simp add: converts_def int_arg_def)
          from step_ready [OF nt nr nw Some this, of st] ready c mt show ?thesis by blast
        next
          case None
          with nt nr nw have u: "unrecognized l" by (simp add: unrecognized_def)
          from other [OF c u mt step_other [OF u]] show ?thesis .
        qed
      qed
    qed
  qed
qed

lemma step_converts: "converts l \<Longrightarrow> \<exists>st'. step st l = Inr st'"
  by (cases rule: step_cases [where l = l and st = st]) simp_all

subsection \<open>The invariant of the loop\<close>

lemma ticks_ok_mono: "ticks_ok m d \<Longrightarrow> m \<le> m' \<Longrightarrow> ticks_ok m' d"
  unfolding ticks_ok_def list_all_iff by fastforce

lemma ticks_ok_old: "ticks_ok m d \<Longrightarrow> list_all (\<lambda>t. t \<le> m) (old_entry p d)"
  unfolding ticks_ok_def old_entry_def
  by (auto split: option.splits dest: list_all_map_of)

lemma ticks_ok_update:
  "ticks_ok m d \<Longrightarrow> t \<le> m \<Longrightarrow> ticks_ok m (AList.update p (old_entry p d @ [t]) d)"
  using ticks_ok_old [of m d p]
  by (simp add: ticks_ok_def list_all_update)

lemma inv_init: "inv init_state"
  by (simp add: inv_def init_state_def init_data_def ticks_ok_def)

lemma ticks_ok_max: "ticks_ok m d \<Longrightarrow> ticks_ok (max m t) d"
  using ticks_ok_mono [of m d "max m t"] by simp

lemma keys_update:
  "fst ` set d \<subseteq> P \<Longrightarrow> fst ` set (AList.update k v d) \<subseteq> insert k P"
  by (auto simp: dom_update)

lemma inv_time:
  assumes "inv st"
  shows "inv (st\<lparr>current_time := t,
                 data := (data st)\<lparr>max_time := max (max_time (data st)) t\<rparr>,
                 current_waiting := [], current_ready := [], current_running := - 1\<rparr>)"
  using assms by (simp add: inv_def ticks_ok_max)

lemma inv_running:
  assumes "inv st" and "0 \<le> p"
  shows "inv (st\<lparr>pid := Some p, current_running := p,
        data := (data st)\<lparr>pids := insert p (pids (data st)),
          cpu := AList.update p (old_entry p (cpu (data st)) @ [current_time st])
                   (cpu (data st))\<rparr>\<rparr>)"
  using assms by (simp add: inv_def keys_update subset_insertI2 ticks_ok_update)

lemma inv_waiting:
  assumes "inv st" and "0 \<le> p"
  shows "inv (st\<lparr>pid := Some p, current_waiting := current_waiting st @ [p],
        data := (data st)\<lparr>pids := insert p (pids (data st)),
          io := AList.update p (old_entry p (io (data st)) @ [current_time st])
                   (io (data st))\<rparr>\<rparr>)"
  using assms by (simp add: inv_def keys_update subset_insertI2 ticks_ok_update)

lemma inv_ready:
  assumes "inv st" and "0 \<le> p"
  shows "inv (st\<lparr>pid := Some p, current_ready := current_ready st @ [p],
        data := (data st)\<lparr>pids := insert p (pids (data st))\<rparr>\<rparr>)"
  using assms by (simp add: inv_def subset_insertI2)

lemma step_inv:
  assumes "inv st" and "step st l = Inr st'"
  shows "inv st'"
proof (cases rule: step_cases [where l = l and st = st])
  case raises
  with assms show ?thesis by simp
next
  case (time g t)
  with assms(2) inv_time [OF assms(1), of t] show ?thesis by simp
next
  case (running p)
  with assms(2) inv_running [OF assms(1), of p] show ?thesis by simp
next
  case (waiting p)
  with assms(2) inv_waiting [OF assms(1), of p] show ?thesis by simp
next
  case (ready p)
  with assms(2) inv_ready [OF assms(1), of p] show ?thesis by simp
next
  case other
  with assms show ?thesis by simp
qed

lemma loop_inv:
  "inv st \<Longrightarrow> loop st ls = Inr st' \<Longrightarrow> inv st'"
proof (induction ls arbitrary: st)
  case Nil
  then show ?case by simp
next
  case (Cons l ls)
  from Cons.prems(2) obtain st1 where s: "step st l = Inr st1" and r: "loop st1 ls = Inr st'"
    by (auto split: sum.splits)
  from Cons.IH [OF step_inv [OF Cons.prems(1) s] r] show ?case .
qed

lemma parse_output_inv:
  assumes "parse_output text = Inr d"
  shows "\<exists>st. loop init_state (readlines text) = Inr st \<and> d = data st \<and> inv st"
proof -
  from assms obtain st where l: "loop init_state (readlines text) = Inr st" and "d = data st"
    by (auto simp: parse_output_def split: sum.splits)
  with loop_inv [OF inv_init l] show ?thesis by blast
qed

subsection \<open>When the parse returns\<close>

lemma loop_converts: "list_all converts ls \<Longrightarrow> \<exists>st'. loop st ls = Inr st'"
proof (induction ls arbitrary: st)
  case Nil
  then show ?case by simp
next
  case (Cons l ls)
  then have "converts l" and r: "list_all converts ls" by simp_all
  from step_converts [OF this(1), of st] obtain st1 where "step st l = Inr st1" by blast
  with Cons.IH [OF r, of st1] show ?case by simp
qed

lemma loop_raises: "\<not> list_all converts ls \<Longrightarrow> loop st ls = Inl ValueError"
proof (induction ls arbitrary: st)
  case Nil
  then show ?case by simp
next
  case (Cons l ls)
  show ?case
  proof (cases "converts l")
    case False
    then show ?thesis by (simp add: step_raises)
  next
    case True
    with Cons.prems have r: "\<not> list_all converts ls" by simp
    from step_converts [OF True, of st] obtain st1 where "step st l = Inr st1" by blast
    with Cons.IH [OF r, of st1] show ?thesis by simp
  qed
qed

subsection \<open>The highest tick\<close>

lemma step_max_time:
  "step st l = Inr st' \<Longrightarrow>
   max_time (data st') =
     (case marker_tick l of None \<Rightarrow> max_time (data st) | Some t \<Rightarrow> max (max_time (data st)) t)"
  by (cases rule: step_cases [where l = l and st = st]) auto

lemma Max_insert_max:
  fixes m :: int
  assumes "finite S"
  shows "Max (insert (max m t) S) = Max (insert m (insert t S))"
proof (cases "S = {}")
  case True
  then show ?thesis by (simp add: max.commute)
next
  case False
  with assms show ?thesis by (simp add: max.assoc max.commute max.left_commute)
qed

lemma loop_max_time:
  "loop st ls = Inr st' \<Longrightarrow>
   max_time (data st') = Max (insert (max_time (data st)) (set (List.map_filter marker_tick ls)))"
proof (induction ls arbitrary: st)
  case Nil
  then show ?case by simp
next
  case (Cons l ls)
  from Cons.prems obtain st1 where s: "step st l = Inr st1" and r: "loop st1 ls = Inr st'"
    by (auto split: sum.splits)
  from Cons.IH [OF r] step_max_time [OF s] show ?case
    by (auto simp: Max_insert_max split: option.splits)
qed

subsection \<open>Evaluation on the scenario texts\<close>

lemmas eval_defs = parse_output_def readlines_def unlines_def step_def on_time_def
  on_running_def on_waiting_def on_ready_def store_ready_def time_pattern_def
  running_pattern_def waiting_pattern_def ready_pattern_def lits_def is_digit_def
  is_space_def grow_def py_int_def max_str_digits_def digit_val_def dict_ensure_def
  dict_in_def dict_append_def init_state_def init_data_def Let_def

lemma scenario_A_eval:
  "parse_output scenario_A =
     Inr \<lparr>cpu = [(1, [0]), (2, [1])], io = [(1, [1])], ready = [], events = [],
          max_time = 1, pids = {1, 2}\<rparr>"
  by (simp add: scenario_A_def eval_defs insert_commute)

lemma tick_twice_eval:
  "parse_output tick_twice =
     Inr \<lparr>cpu = [(1, [3, 3]), (2, [4])], io = [(2, [3]), (5, [3])], ready = [],
          events = [], max_time = 4, pids = {1, 2, 5}\<rparr>"
  by (simp add: tick_twice_def eval_defs insert_commute)

lemma tick_twice_ticks:
  "List.map_filter marker_tick (readlines tick_twice) = [3, 4, 3]"
  by (simp add: tick_twice_def marker_tick_def eval_defs)

lemma only_noise_lines:
  "readlines only_noise =
     [''scheduler started'' @ [CHR 0x0A], ''running pid: -1'' @ [CHR 0x0A],
      ''TIME: 7'' @ [CHR 0x0A], ''pid 4 ready'']"
  by (simp add: only_noise_def readlines_def)

lemma only_noise_unrecognized: "list_all unrecognized (readlines only_noise)"
  by (simp add: only_noise_lines unrecognized_def time_pattern_def running_pattern_def
        waiting_pattern_def ready_pattern_def lits_def is_digit_def is_space_def grow_def)

lemma loop_unrecognized: "list_all unrecognized ls \<Longrightarrow> loop st ls = Inr st"
  by (induction ls) (simp_all add: step_other)

lemma only_noise_eval: "parse_output only_noise = Inr init_data"
  by (simp add: parse_output_def loop_unrecognized [OF only_noise_unrecognized]
        init_state_def)

subsection \<open>A numeral that is too long\<close>

lemma translate_newlines_id: "CHR 0x0D \<notin> set s \<Longrightarrow> translate_newlines s = s"
  by (induction s) auto

lemma split_lines_one:
  "CHR 0x0A \<notin> set s \<Longrightarrow> split_lines cur s = (if cur @ s = [] then [] else [cur @ s])"
  by (induction s arbitrary: cur) auto

lemma long_pid_lines: "readlines long_pid = [long_pid]"
  by (simp add: readlines_def long_pid_def translate_newlines_id split_lines_one)

lemma time_pattern_needs_star:
  "CHR ''*'' \<notin> set s \<Longrightarrow> re_search time_pattern s = None"
  by (induction s) (auto simp: time_pattern_def)

lemma rmatch_digit_run:
  "rmatch [Star Dig, GClose] (replicate n CHR ''1'') True g = Some (g @ replicate n CHR ''1'')"
  by (induction n arbitrary: g) (simp_all add: is_digit_def grow_def)

lemma long_pid_running:
  "re_search running_pattern long_pid = Some (replicate (Suc max_str_digits) CHR ''1'')"
  by (simp add: long_pid_def running_pattern_def lits_def is_space_def is_digit_def grow_def
        rmatch_digit_run)

lemma long_pid_time: "re_search time_pattern long_pid = None"
  by (rule time_pattern_needs_star) (simp add: long_pid_def)

lemma long_pid_not_converts: "\<not> converts long_pid"
  by (simp add: converts_def int_arg_def long_pid_time long_pid_running)

lemma long_pid_eval: "parse_output long_pid = Inl ValueError"
  by (simp add: parse_output_def long_pid_lines step_raises [OF long_pid_not_converts])

subsection \<open>The calls of the renderer\<close>

lemma perform_first_call:
  "\<exists>cs r. perform lib [] (Call c # acts) = (c # cs, r)"
proof -
  have "\<exists>cs. fst (perform lib pre acts) = pre @ cs" for pre acts
    by (induction lib pre acts rule: perform.induct) auto
  from this [of "[c]" acts] show ?thesis
    by (cases "perform lib [c] acts") auto
qed

lemma plot_actions_first:
  "\<exists>ratios acts. plot_actions d ps output_file = Call (Subplots ratios) # acts"
  by (simp add: plot_actions_def Let_def)

lemma draw_gantt_first_call:
  assumes "finite (pids d)" and "pids d \<noteq> {}"
  shows "\<exists>ratios cs r. draw_gantt lib d output_file = (Subplots ratios # cs, r)"
proof -
  from assms have
    "draw_gantt lib d output_file =
       perform lib [] (plot_actions d (sorted_list_of_set (pids d)) output_file)"
    by (simp add: draw_gantt_def Let_def)
  moreover from plot_actions_first obtain ratios acts where
    "plot_actions d (sorted_list_of_set (pids d)) output_file = Call (Subplots ratios) # acts"
    by blast
  moreover from perform_first_call obtain cs r where
    "perform lib [] (Call (Subplots ratios) # acts) = (Subplots ratios # cs, r)"
    by blast
  ultimately show ?thesis by simp
qed

lemma new_keys: "fst ` set (AList.update k v d) - fst ` set d \<subseteq> {k}"
  unfolding dom_update by blast

lemma step_adds_nonneg:
  assumes "step st l = Inr st'"
  shows "pids (data st') - pids (data st) \<subseteq> {p. 0 \<le> p} \<and>
         fst ` set (cpu (data st')) - fst ` set (cpu (data st)) \<subseteq> {p. 0 \<le> p}"
proof (cases rule: step_cases [where l = l and st = st])
  case raises
  with assms show ?thesis by simp
next
  case (time g t)
  with assms show ?thesis by auto
next
  case (running p)
  with assms have e: "pids (data st') = insert p (pids (data st))"
    "cpu (data st') =
       AList.update p (old_entry p (cpu (data st)) @ [current_time st]) (cpu (data st))"
    by auto
  from running(2) have "{p} \<subseteq> {p. 0 \<le> p}" by simp
  with new_keys [of p "old_entry p (cpu (data st)) @ [current_time st]" "cpu (data st)"]
  show ?thesis unfolding e by blast
next
  case (waiting p)
  with assms show ?thesis by auto
next
  case (ready p)
  with assms show ?thesis by auto
next
  case other
  with assms show ?thesis by auto
qed


section \<open>The claims\<close>

text \<open>
  C1. Scenario A of the specification expects the ready queues \<open>{0:[2], 1:[1]}\<close>. The
  parser returns the expected CPU and I/O intervals, highest tick and PIDs, and an empty
  dictionary of ready queues: both ready lines end in \<^verbatim>\<open>continue\<close> before the block
  that stores them.
\<close>

theorem scenario_A_ready_missing:
  "parse_output scenario_A =
     Inr \<lparr>cpu = [(1, [0]), (2, [1])], io = [(1, [1])], ready = [], events = [],
          max_time = 1, pids = {1, 2}\<rparr>"
  by (simp add: scenario_A_def eval_defs insert_commute)

text \<open>
  C2. For every input text, the dictionary \<^verbatim>\<open>data['ready']\<close> of the trace that
  \<^verbatim>\<open>parse_output\<close> returns is empty.
\<close>

theorem ready_always_empty:
  "parse_output text = Inr d \<Longrightarrow> ready d = []"
  using parse_output_inv [of "text" d] by (auto simp: inv_def)

theorem ready_always_empty_witness:
  "parse_output scenario_A =
     Inr \<lparr>cpu = [(1, [0]), (2, [1])], io = [(1, [1])], ready = [], events = [],
          max_time = 1, pids = {1, 2}\<rparr> \<and>
   ready \<lparr>cpu = [(1, [0]), (2, [1])], io = [(1, [1])], ready = [], events = [],
          max_time = 1, pids = {1, 2}\<rparr> = []"
  using ready_always_empty [OF scenario_A_eval] scenario_A_eval by simp

text \<open>
  C3. Two ready announcements of PID 1 in the block of tick 0 should leave exactly one
  entry for PID 1 in the ready queue of tick 0. The parser leaves none: the dictionary
  of ready queues is empty.
\<close>

theorem twice_ready_no_entry:
  "parse_output twice_ready =
     Inr \<lparr>cpu = [], io = [], ready = [], events = [], max_time = 0, pids = {1}\<rparr>"
  by (simp add: twice_ready_def eval_defs)

text \<open>
  C4. For every input text, every PID that is a key of \<^verbatim>\<open>data['cpu']\<close> or of
  \<^verbatim>\<open>data['io']\<close>, or an element of a queue of \<^verbatim>\<open>data['ready']\<close>, in the trace
  that \<^verbatim>\<open>parse_output\<close> returns is a member of \<^verbatim>\<open>data['pids']\<close>.
\<close>

theorem known_pids_closed:
  "parse_output text = Inr d \<Longrightarrow>
     fst ` set (cpu d) \<subseteq> pids d \<and>
     fst ` set (io d) \<subseteq> pids d \<and>
     (\<forall>(t, q) \<in> set (ready d). set q \<subseteq> pids d)"
  using parse_output_inv [of "text" d] by (auto simp: inv_def)

theorem known_pids_closed_witness:
  "parse_output scenario_A =
     Inr \<lparr>cpu = [(1, [0]), (2, [1])], io = [(1, [1])], ready = [], events = [],
          max_time = 1, pids = {1, 2}\<rparr> \<and>
   fst ` set [(1::int, [0::int]), (2, [1])] \<subseteq> {1, 2} \<and>
   fst ` set [(1::int, [1::int])] \<subseteq> {1, 2}"
  using known_pids_closed [OF scenario_A_eval] scenario_A_eval by simp

text \<open>
  C5, as stated, fails: a line whose numeral has 4301 digits makes \<^verbatim>\<open>int()\<close> raise
  \<open>ValueError\<close>, and nothing in \<^verbatim>\<open>parse_output\<close> catches it.
\<close>

theorem parse_output_raises_on_long_numeral:
  "parse_output long_pid = Inl ValueError"
  by (simp add: parse_output_def long_pid_lines step_raises [OF long_pid_not_converts])

text \<open>
  C5, amended. \<^verbatim>\<open>parse_output\<close> returns a trace exactly for the texts in which
  every numeral that a line passes to \<^verbatim>\<open>int()\<close> has at most 4300 digits, and raises
  \<open>ValueError\<close> for the others; a line with such a numeral, or with none, raises in no
  state of the loop; and a line that none of the four patterns matches leaves every
  variable of the loop, the trace and the current tick among them, as it was.
\<close>

theorem parse_output_total_short_numerals:
  "(list_all converts (readlines text) \<longrightarrow> (\<exists>d. parse_output text = Inr d)) \<and>
   (\<not> list_all converts (readlines text) \<longrightarrow> parse_output text = Inl ValueError) \<and>
   (converts line \<longrightarrow> (\<exists>st'. step st line = Inr st')) \<and>
   (unrecognized line \<longrightarrow> step st line = Inr st)"
proof -
  have "\<exists>d. parse_output text = Inr d" if "list_all converts (readlines text)"
    using loop_converts [OF that, of init_state] by (auto simp: parse_output_def)
  moreover have "parse_output text = Inl ValueError"
    if "\<not> list_all converts (readlines text)"
    using loop_raises [OF that, of init_state] by (simp add: parse_output_def)
  ultimately show ?thesis
    by (simp add: step_converts step_other)
qed

theorem parse_output_total_short_numerals_witness:
  "list_all converts (readlines only_noise) \<and>
   parse_output only_noise = Inr init_data \<and>
   \<not> list_all converts (readlines long_pid) \<and>
   parse_output long_pid = Inl ValueError \<and>
   converts ''pid 4 ready'' \<and> unrecognized ''pid 4 ready'' \<and>
   step init_state ''pid 4 ready'' = Inr init_state"
proof -
  have u: "unrecognized ''pid 4 ready''"
    using only_noise_unrecognized by (simp add: only_noise_lines)
  have c: "list_all converts (readlines only_noise)"
    using only_noise_unrecognized by (simp add: list_all_iff unrecognized_converts)
  have n: "\<not> list_all converts (readlines long_pid)"
    by (simp add: long_pid_lines long_pid_not_converts)
  from u c n only_noise_eval unrecognized_converts [OF u]
    parse_output_total_short_numerals [of only_noise "''pid 4 ready''" init_state]
    parse_output_total_short_numerals [of long_pid "''pid 4 ready''" init_state]
  show ?thesis by simp
qed

text \<open>
  C6. For every input text, \<open>-1\<close> is neither a member of \<^verbatim>\<open>data['pids']\<close> nor a key of
  \<^verbatim>\<open>data['cpu']\<close> in the trace that \<^verbatim>\<open>parse_output\<close> returns; no line adds a
  negative PID to either of them in any state; and the line \<^verbatim>\<open>running pid: -1\<close>, with
  or without its line end, changes nothing.
\<close>

theorem sentinel_never_recorded:
  "(parse_output text = Inr d \<longrightarrow> - 1 \<notin> pids d \<and> - 1 \<notin> fst ` set (cpu d)) \<and>
   (step st line = Inr st' \<longrightarrow>
      pids (data st') - pids (data st) \<subseteq> {p. 0 \<le> p} \<and>
      fst ` set (cpu (data st')) - fst ` set (cpu (data st)) \<subseteq> {p. 0 \<le> p}) \<and>
   step st ''running pid: -1'' = Inr st \<and>
   step st (''running pid: -1'' @ [CHR 0x0A]) = Inr st"
proof -
  have "- 1 \<notin> pids d \<and> - 1 \<notin> fst ` set (cpu d)" if "parse_output text = Inr d"
  proof -
    from parse_output_inv [OF that] obtain s where d: "d = data s" and i: "inv s" by blast
    from i have nonneg: "pids (data s) \<subseteq> {p. 0 \<le> p}"
      and keys: "fst ` set (cpu (data s)) \<subseteq> pids (data s)"
      by (simp_all add: inv_def)
    from nonneg have "- 1 \<notin> pids (data s)" by auto
    moreover from this keys have "- 1 \<notin> fst ` set (cpu (data s))" by blast
    ultimately show ?thesis using d by simp
  qed
  moreover have "pids (data st') - pids (data st) \<subseteq> {p. 0 \<le> p} \<and>
      fst ` set (cpu (data st')) - fst ` set (cpu (data st)) \<subseteq> {p. 0 \<le> p}"
    if "step st line = Inr st'"
    using that by (rule step_adds_nonneg)
  moreover have "step st ''running pid: -1'' = Inr st"
    by (simp add: eval_defs)
  moreover have "step st (''running pid: -1'' @ [CHR 0x0A]) = Inr st"
    by (simp add: eval_defs)
  ultimately show ?thesis by blast
qed

theorem sentinel_never_recorded_witness:
  "parse_output scenario_A =
     Inr \<lparr>cpu = [(1, [0]), (2, [1])], io = [(1, [1])], ready = [], events = [],
          max_time = 1, pids = {1, 2}\<rparr> \<and>
   - 1 \<notin> {1, 2 :: int} \<and> - 1 \<notin> fst ` set [(1::int, [0::int]), (2, [1])] \<and>
   step init_state ''running pid: 7'' =
     Inr (init_state\<lparr>pid := Some 7, current_running := 7,
            data := init_data\<lparr>pids := {7}, cpu := [(7, [0])]\<rparr>\<rparr>) \<and>
   {7} - {} \<subseteq> {p :: int. 0 \<le> p} \<and>
   step init_state ''running pid: -1'' = Inr init_state"
proof -
  have s: "step init_state ''running pid: 7'' =
     Inr (init_state\<lparr>pid := Some 7, current_running := 7,
            data := init_data\<lparr>pids := {7}, cpu := [(7, [0])]\<rparr>\<rparr>)"
    by (simp add: eval_defs)
  from s scenario_A_eval
    sentinel_never_recorded [of scenario_A
      "\<lparr>cpu = [(1, [0]), (2, [1])], io = [(1, [1])], ready = [], events = [],
          max_time = 1, pids = {1, 2}\<rparr>" init_state "''running pid: 7''"
      "init_state\<lparr>pid := Some 7, current_running := 7,
            data := init_data\<lparr>pids := {7}, cpu := [(7, [0])]\<rparr>\<rparr>"]
  show ?thesis by simp
qed

text \<open>
  C7. Announcements before any tick marker should be recorded under tick 0. The
  running and the waiting announcement are (\<open>cpu[1] = [0]\<close>, \<open>io[3] = [0]\<close>) and nothing
  raises, but the ready announcement of PID 2 is recorded under no tick at all: the
  dictionary of ready queues is empty.
\<close>

theorem pre_marker_ready_missing:
  "parse_output pre_marker =
     Inr \<lparr>cpu = [(1, [0])], io = [(3, [0])], ready = [], events = [], max_time = 0,
          pids = {1, 2, 3}\<rparr>"
  by (simp add: pre_marker_def eval_defs insert_commute)

text \<open>
  C8. When tick 3 is announced by two markers, the events of the second block should
  append into the accumulators of tick 3. The second marker keeps what is recorded and
  the second running announcement is appended (\<open>cpu[1] = [3, 3]\<close>), but the ready
  announcements of PID 2 and PID 3 are appended nowhere: the dictionary of ready queues
  is empty where the queue of tick 3 should be \<open>[2, 3]\<close>.
\<close>

theorem tick_twice_ready_missing:
  "parse_output tick_twice_ready =
     Inr \<lparr>cpu = [(1, [3, 3])], io = [], ready = [], events = [], max_time = 3,
          pids = {1, 2, 3}\<rparr>"
  by (simp add: tick_twice_ready_def eval_defs insert_commute)

text \<open>
  C9. For every input text, in the trace that \<^verbatim>\<open>parse_output\<close> returns every tick
  recorded in \<^verbatim>\<open>data['cpu']\<close> or \<^verbatim>\<open>data['io']\<close> and every key of
  \<^verbatim>\<open>data['ready']\<close> is at most \<^verbatim>\<open>data['max_time']\<close>, and
  \<^verbatim>\<open>data['max_time']\<close> is the maximum of 0 and the ticks announced by the tick-marker
  lines of the text.
\<close>

theorem max_time_bounds:
  "parse_output text = Inr d \<Longrightarrow>
     (\<forall>(p, ts) \<in> set (cpu d). \<forall>t \<in> set ts. t \<le> max_time d) \<and>
     (\<forall>(p, ts) \<in> set (io d). \<forall>t \<in> set ts. t \<le> max_time d) \<and>
     (\<forall>(t, q) \<in> set (ready d). t \<le> max_time d) \<and>
     max_time d = Max (insert 0 (set (List.map_filter marker_tick (readlines text))))"
proof -
  assume "parse_output text = Inr d"
  from parse_output_inv [OF this] obtain s where
    l: "loop init_state (readlines text) = Inr s" and d: "d = data s" and i: "inv s"
    by blast
  from i have "ticks_ok (max_time (data s)) (cpu (data s))"
    and "ticks_ok (max_time (data s)) (io (data s))" and "ready (data s) = []"
    by (simp_all add: inv_def)
  then have "\<forall>(p, ts) \<in> set (cpu (data s)). \<forall>t \<in> set ts. t \<le> max_time (data s)"
    and "\<forall>(p, ts) \<in> set (io (data s)). \<forall>t \<in> set ts. t \<le> max_time (data s)"
    and "\<forall>(t, q) \<in> set (ready (data s)). t \<le> max_time (data s)"
    by (simp_all add: ticks_ok_def list_all_iff)
  moreover from loop_max_time [OF l] have
    "max_time (data s) = Max (insert 0 (set (List.map_filter marker_tick (readlines text))))"
    by (simp add: init_state_def init_data_def)
  ultimately show ?thesis using d by blast
qed

theorem max_time_bounds_witness:
  "parse_output tick_twice =
     Inr \<lparr>cpu = [(1, [3, 3]), (2, [4])], io = [(2, [3]), (5, [3])], ready = [],
          events = [], max_time = 4, pids = {1, 2, 5}\<rparr> \<and>
   List.map_filter marker_tick (readlines tick_twice) = [3, 4, 3] \<and>
   (4::int) = Max (insert 0 (set [3, 4, 3])) \<and>
   list_all (\<lambda>t. t \<le> (4::int)) (concat (map snd [(1::int, [3, 3]), (2, [4])])) \<and>
   list_all (\<lambda>t. t \<le> (4::int)) (concat (map snd [(2::int, [3]), (5, [3])]))"
  using max_time_bounds [OF tick_twice_eval]
  by (simp add: tick_twice_eval tick_twice_ticks)

text \<open>
  C10. \<^verbatim>\<open>draw_gantt\<close> on a trace without PIDs prints \<^verbatim>\<open>No processes found.\<close>,
  makes no other call and raises nothing, whatever the plotting library does: nothing is
  plotted and no file is saved. That is the case for the trace of every text whose lines
  are all unrecognized, which also has the highest tick 0. With at least one PID the
  first call is the one that creates the figure.
\<close>

theorem draw_gantt_no_processes:
  "(pids d = {} \<longrightarrow>
      draw_gantt lib d output_file = ([Print ''No processes found.''], None)) \<and>
   (list_all unrecognized (readlines text) \<longrightarrow>
      (\<exists>d'. parse_output text = Inr d' \<and> pids d' = {} \<and> max_time d' = 0 \<and>
            draw_gantt lib d' output_file = ([Print ''No processes found.''], None))) \<and>
   (finite (pids d) \<and> pids d \<noteq> {} \<longrightarrow>
      (\<exists>ratios cs r. draw_gantt lib d output_file = (Subplots ratios # cs, r)))"
proof -
  have e: "draw_gantt lib d' output_file = ([Print ''No processes found.''], None)"
    if "pids d' = {}" for d'
    using that by (simp add: draw_gantt_def returns_def)
  have "parse_output text = Inr init_data" if "list_all unrecognized (readlines text)"
    using loop_unrecognized [OF that, of init_state]
    by (simp add: parse_output_def init_state_def)
  moreover have "pids init_data = {}" "max_time init_data = 0"
    by (simp_all add: init_data_def)
  moreover have "\<exists>ratios cs r. draw_gantt lib d output_file = (Subplots ratios # cs, r)"
    if "finite (pids d)" "pids d \<noteq> {}"
    using that by (rule draw_gantt_first_call)
  ultimately show ?thesis using e by blast
qed

theorem draw_gantt_no_processes_witness:
  "list_all unrecognized (readlines only_noise) \<and>
   parse_output only_noise = Inr init_data \<and> pids init_data = {} \<and>
   max_time init_data = 0 \<and>
   draw_gantt lib_ok init_data ''gantt_diagram/schedule.png'' =
     ([Print ''No processes found.''], None) \<and>
   (\<exists>ratios cs r. draw_gantt lib_ok (init_data\<lparr>pids := {1}\<rparr>) ''gantt_diagram/schedule.png'' =
      (Subplots ratios # cs, r))"
proof -
  have f: "finite (pids (init_data\<lparr>pids := {1}\<rparr>)) \<and> pids (init_data\<lparr>pids := {1}\<rparr>) \<noteq> {}"
    by simp
  have e: "pids init_data = {}" "max_time init_data = 0"
    by (simp_all add: init_data_def)
  from draw_gantt_no_processes [of init_data lib_ok "''gantt_diagram/schedule.png''" only_noise]
    draw_gantt_no_processes [of "init_data\<lparr>pids := {1}\<rparr>" lib_ok
      "''gantt_diagram/schedule.png''" only_noise]
    only_noise_unrecognized only_noise_eval f e
  show ?thesis by simp
qed

end
